theory Spec2Isabelle
  imports Main
begin

section \<open>Strings\<close>

text \<open>
  A Python \<open>str\<close> is modelled as a \<open>string\<close>; a \<open>char\<close> stands for a code point
  below 256. \<open>whitespace\<close> is \<open>str.isspace\<close> on one such code point: the characters
  that \<open>str.strip()\<close> removes when it is called without an argument.
\<close>

definition whitespace :: "char \<Rightarrow> bool" where
  "whitespace c =
     (let n = (of_char c :: nat)
      in (9 \<le> n \<and> n \<le> 13) \<or> (28 \<le> n \<and> n \<le> 32) \<or> n = 133 \<or> n = 160)"

definition strip :: "string \<Rightarrow> string" where
  "strip s = rev (dropWhile whitespace (rev (dropWhile whitespace s)))"

text \<open>\<open>sep.join(xs)\<close>.\<close>

fun join :: "string \<Rightarrow> string list \<Rightarrow> string" where
  "join sep [] = []"
| "join sep [x] = x"
| "join sep (x # y # ys) = x @ sep @ join sep (y # ys)"

section \<open>The navigation tree\<close>

text \<open>
  What an item of \<open>book.toc\<close> can be, as \<open>walk_toc\<close> tells the shapes apart:
  an \<open>epub.Link\<close>; a 2-tuple of an \<open>epub.Section\<close> and its children; a bare
  \<open>epub.Section\<close>; anything else (a tuple headed by a Link, a nested list, ...),
  with the items nested inside it. A title is a string or \<open>None\<close>.
\<close>

datatype nav =
    Link "string option"
  | SectionPair "string option" "nav list"
  | Section "string option"
  | Other "nav list"

text \<open>
  \<open>if title: yield title.strip(), level\<close>. The test is Python's truth value of the
  title as it is stored (\<open>None\<close> and \<open>""\<close> are false); the strip comes after it.
\<close>

fun yield_title :: "string option \<Rightarrow> int \<Rightarrow> (string \<times> int) list" where
  "yield_title None level = []"
| "yield_title (Some t) level = (if t \<noteq> [] then [(strip t, level)] else [])"

text \<open>The generator \<open>walk_toc(toc, level)\<close>, as the list of the pairs it yields.\<close>

fun walk_toc :: "nav list \<Rightarrow> int \<Rightarrow> (string \<times> int) list" where
  "walk_toc [] level = []"
| "walk_toc (Link title # toc) level = yield_title title level @ walk_toc toc level"
| "walk_toc (SectionPair title children # toc) level =
     yield_title title level @ walk_toc children (level + 1) @ walk_toc toc level"
| "walk_toc (Section title # toc) level = yield_title title level @ walk_toc toc level"
| "walk_toc (Other nested # toc) level = walk_toc toc level"

section \<open>Rendering\<close>

text \<open>
  \<open>str.title()\<close> on ASCII letters: a letter that follows a letter is made lower
  case, any other letter upper case. Characters that are not ASCII letters are kept and
  count as uncased; Python also cases the letters beyond ASCII, so the two differ on
  those. The only use of the result is as an element of \<open>titleized_toc\<close>, which is
  never read.
\<close>

definition is_lower :: "char \<Rightarrow> bool" where
  "is_lower c = (let n = (of_char c :: nat) in 97 \<le> n \<and> n \<le> 122)"

definition is_upper :: "char \<Rightarrow> bool" where
  "is_upper c = (let n = (of_char c :: nat) in 65 \<le> n \<and> n \<le> 90)"

definition to_upper :: "char \<Rightarrow> char" where
  "to_upper c = (if is_lower c then char_of ((of_char c :: nat) - 32) else c)"

definition to_lower :: "char \<Rightarrow> char" where
  "to_lower c = (if is_upper c then char_of ((of_char c :: nat) + 32) else c)"

fun title_from :: "bool \<Rightarrow> string \<Rightarrow> string" where
  "title_from previous_is_cased [] = []"
| "title_from previous_is_cased (c # cs) =
     (if is_lower c \<or> is_upper c
      then (if previous_is_cased then to_lower c else to_upper c) # title_from True cs
      else c # title_from False cs)"

definition str_title :: "string \<Rightarrow> string" where
  "str_title s = title_from False s"

text \<open>
  The first loop of \<open>toc_to_markdown\<close>: every pair of \<open>walk_toc\<close> is appended to
  \<open>toc_titles\<close> and its titleized title is added to the set \<open>titleized_toc\<close>.
\<close>

fun collect_titles ::
  "(string \<times> int) list \<Rightarrow> (string \<times> int) list \<times> string set \<Rightarrow>
   (string \<times> int) list \<times> string set" where
  "collect_titles [] acc = acc"
| "collect_titles ((title, level) # rest) (toc_titles, titleized_toc) =
     collect_titles rest (toc_titles @ [(title, level)], insert (str_title title) titleized_toc)"

text \<open>\<open>"#" * heading_level\<close>: a count below one gives the empty string.\<close>

definition hashes :: "int \<Rightarrow> string" where
  "hashes heading_level = replicate (nat heading_level) CHR ''#''"

text \<open>The second loop: one heading line per collected pair, appended to \<open>md_lines\<close>.\<close>

fun add_entries :: "(string \<times> int) list \<Rightarrow> string list \<Rightarrow> string list" where
  "add_entries [] md_lines = md_lines"
| "add_entries ((title, level) # rest) md_lines =
     add_entries rest (md_lines @ [hashes (level + 2) @ '' '' @ title])"

text \<open>
  The text that \<open>toc_to_markdown\<close> hands to \<open>write_text\<close>, from the book title and
  the pairs of \<open>walk_toc\<close>.
\<close>

definition md_document :: "string \<Rightarrow> (string \<times> int) list \<Rightarrow> string" where
  "md_document title_of_book entries =
     (let md_lines = [] @ [''# '' @ title_of_book] @ [''''];
          (toc_titles, titleized_toc) = collect_titles entries ([], {});
          md_lines = add_entries toc_titles md_lines
      in join ''\<newline>'' md_lines @ ''\<newline>'')"

section \<open>The book and its title\<close>

text \<open>
  \<open>book.metadata\<close> maps a namespace to a dictionary from a name to a list of entries.
  An entry is a tuple whose first component is the value, or the value alone; the value
  is a string or \<open>None\<close>, and an f-string prints \<open>None\<close> as the word.
\<close>

datatype meta_entry = MetaTuple "string option" | MetaValue "string option"

record book =
  metadata :: "string \<rightharpoonup> (string \<rightharpoonup> meta_entry list)"
  toc :: "nav list"

definition DC :: string where
  "DC = ''http://purl.org/dc/elements/1.1/''"

fun format_value :: "string option \<Rightarrow> string" where
  "format_value None = ''None''"
| "format_value (Some s) = s"

fun first_value :: "meta_entry \<Rightarrow> string option" where
  "first_value (MetaTuple v) = v"
| "first_value (MetaValue v) = v"

definition book_title :: "book \<Rightarrow> string" where
  "book_title b =
     (case metadata b DC of
        None \<Rightarrow> ''Untitled''
      | Some d \<Rightarrow>
          (case d ''title'' of
             None \<Rightarrow> ''Untitled''
           | Some titles \<Rightarrow>
               (case titles of
                  [] \<Rightarrow> ''Untitled''
                | e # _ \<Rightarrow> format_value (first_value e))))"

section \<open>Paths and files\<close>

text \<open>
  A \<open>pathlib\<close> path after parsing: the anchor (empty for a relative path) and the
  components after it. \<open>name\<close>, \<open>stem\<close> and \<open>with_name\<close> follow \<open>pathlib\<close>:
  the stem cuts the name at its last dot unless that dot is the first or the last
  character, and \<open>with_name\<close> raises \<open>ValueError\<close> on a path without a name or
  for a new name that is empty, a single dot or holds a separator.
\<close>

record pure_path =
  anchor :: string
  tail :: "string list"

datatype error = LoadError string | ValueError | OSError

definition name :: "pure_path \<Rightarrow> string" where
  "name p = (if tail p = [] then [] else last (tail p))"

definition rfind :: "char \<Rightarrow> string \<Rightarrow> int" where
  "rfind c s =
     (if c \<in> set s
      then int (length s) - 1 - int (length (takeWhile (\<lambda>x. x \<noteq> c) (rev s)))
      else - 1)"

definition stem :: "pure_path \<Rightarrow> string" where
  "stem p =
     (let i = rfind CHR ''.'' (name p)
      in if 0 < i \<and> i < int (length (name p)) - 1 then take (nat i) (name p) else name p)"

definition with_name :: "pure_path \<Rightarrow> string \<Rightarrow> error + pure_path" where
  "with_name p new_name =
     (if name p = [] then Inl ValueError
      else if new_name = [] \<or> CHR ''/'' \<in> set new_name \<or> new_name = ''.''
      then Inl ValueError
      else Inr (p\<lparr>tail := butlast (tail p) @ [new_name]\<rparr>))"

text \<open>Lines 64 and 65 of \<open>toc_to_markdown\<close>: the path of the output file.\<close>

definition output_file :: "pure_path \<Rightarrow> error + pure_path" where
  "output_file epub_path =
     (let base_name = stem epub_path in with_name epub_path (base_name @ '' - ToC.md''))"

text \<open>
  The files are a map from a path to the text stored there. \<open>write_text\<close> replaces
  what the path held by the text as it is given (no newline translation, as on POSIX),
  or raises \<open>OSError\<close> where the path cannot be written.
\<close>

type_synonym files = "pure_path \<rightharpoonup> string"

definition write_text ::
  "(pure_path \<Rightarrow> bool) \<Rightarrow> files \<Rightarrow> pure_path \<Rightarrow> string \<Rightarrow> error + files" where
  "write_text can_write fs p data = (if can_write p then Inr (fs(p \<mapsto> data)) else Inl OSError)"

section \<open>The program\<close>

text \<open>
  The surroundings of one run: \<open>epub.read_epub\<close> of the external library, which
  returns the book or raises, and the paths that can be written.
\<close>

record env =
  read_epub :: "pure_path \<Rightarrow> error + book"
  writable :: "pure_path \<Rightarrow> bool"

text \<open>
  \<open>toc_to_markdown\<close> returns the files after the run and either the exception that
  ended it or the output path that the success message names.
\<close>

definition toc_to_markdown :: "env \<Rightarrow> files \<Rightarrow> pure_path \<Rightarrow> files \<times> (error + pure_path)" where
  "toc_to_markdown e fs epub_path =
     (case read_epub e epub_path of
        Inl err \<Rightarrow> (fs, Inl err)
      | Inr b \<Rightarrow>
          (case output_file epub_path of
             Inl err \<Rightarrow> (fs, Inl err)
           | Inr out \<Rightarrow>
               (case write_text (writable e) fs out
                       (md_document (book_title b) (walk_toc (toc b) 0)) of
                  Inl err \<Rightarrow> (fs, Inl err)
                | Inr fs' \<Rightarrow> (fs', Inr out))))"

text \<open>\<open>main\<close> calls \<open>toc_to_markdown\<close> on the path argument and catches nothing.\<close>

definition main :: "env \<Rightarrow> files \<Rightarrow> pure_path \<Rightarrow> files \<times> (error + pure_path)" where
  "main e fs epub_file = toc_to_markdown e fs epub_file"

section \<open>Definitions used to state the properties\<close>

text \<open>
  The number of nodes of a tree, nested ones included, whose title is non-empty once it
  is trimmed. Items that are no navigation node count for nothing.
\<close>

fun trimmed_title_nonempty :: "string option \<Rightarrow> bool" where
  "trimmed_title_nonempty None = False"
| "trimmed_title_nonempty (Some t) = (strip t \<noteq> [])"

fun titled_nodes :: "nav list \<Rightarrow> nat" where
  "titled_nodes [] = 0"
| "titled_nodes (Link title # rest) =
     (if trimmed_title_nonempty title then 1 else 0) + titled_nodes rest"
| "titled_nodes (SectionPair title children # rest) =
     (if trimmed_title_nonempty title then 1 else 0) + titled_nodes children + titled_nodes rest"
| "titled_nodes (Section title # rest) =
     (if trimmed_title_nonempty title then 1 else 0) + titled_nodes rest"
| "titled_nodes (Other nested # rest) = titled_nodes rest"

text \<open>
  The variant of \<open>toc_to_markdown\<close> without the titleized set: its first loop only
  appends to \<open>toc_titles\<close>; everything else is as before.
\<close>

fun collect_titles_plain ::
  "(string \<times> int) list \<Rightarrow> (string \<times> int) list \<Rightarrow> (string \<times> int) list" where
  "collect_titles_plain [] toc_titles = toc_titles"
| "collect_titles_plain ((title, level) # rest) toc_titles =
     collect_titles_plain rest (toc_titles @ [(title, level)])"

definition md_document_plain :: "string \<Rightarrow> (string \<times> int) list \<Rightarrow> string" where
  "md_document_plain title_of_book entries =
     (let md_lines = [] @ [''# '' @ title_of_book] @ [''''];
          toc_titles = collect_titles_plain entries [];
          md_lines = add_entries toc_titles md_lines
      in join ''\<newline>'' md_lines @ ''\<newline>'')"

definition toc_to_markdown_plain ::
  "env \<Rightarrow> files \<Rightarrow> pure_path \<Rightarrow> files \<times> (error + pure_path)" where
  "toc_to_markdown_plain e fs epub_path =
     (case read_epub e epub_path of
        Inl err \<Rightarrow> (fs, Inl err)
      | Inr b \<Rightarrow>
          (case output_file epub_path of
             Inl err \<Rightarrow> (fs, Inl err)
           | Inr out \<Rightarrow>
               (case write_text (writable e) fs out
                       (md_document_plain (book_title b) (walk_toc (toc b) 0)) of
                  Inl err \<Rightarrow> (fs, Inl err)
                | Inr fs' \<Rightarrow> (fs', Inr out))))"

text \<open>The heading line of one entry, as the second loop builds it.\<close>

definition heading_line :: "string \<times> int \<Rightarrow> string" where
  "heading_line entry = hashes (snd entry + 2) @ '' '' @ fst entry"

section \<open>Properties of the walk\<close>

lemma walk_toc_append: "walk_toc (xs @ ys) level = walk_toc xs level @ walk_toc ys level"
  by (induction xs level rule: walk_toc.induct) simp_all

lemma strip_Nil: "strip [] = []"
  by (simp add: strip_def)

lemma yield_title_level: "(t, l) \<in> set (yield_title title level) \<Longrightarrow> l = level"
  by (cases title) (auto split: if_splits)

lemma walk_toc_level: "(t, l) \<in> set (walk_toc items level) \<Longrightarrow> level \<le> l"
  by (induction items level arbitrary: t l rule: walk_toc.induct)
    (fastforce dest: yield_title_level)+

lemma walk_toc_levels: "list_all (\<lambda>entry. 0 \<le> snd entry) (walk_toc items 0)"
  by (auto simp: list_all_iff dest: walk_toc_level)

text \<open>
  C1. The claim is that a node whose trimmed title is empty never gives an entry, and
  that the walk yields as many pairs as there are nodes with a non-empty trimmed title.
  The walk tests the title before it trims it: the list of the single link titled with
  one space has no node with a non-empty trimmed title, and the walk yields one pair
  for it, with the empty title.
\<close>

theorem walk_toc_blank_title:
  "walk_toc [Link (Some '' '')] 0 = [('''', 0)]
   \<and> titled_nodes [Link (Some '' '')] = 0
   \<and> length (walk_toc [Link (Some '' '')] 0) \<noteq> titled_nodes [Link (Some '' '')]"
  by (simp add: strip_def whitespace_def)

text \<open>
  C2. A section with children and a non-empty trimmed title, met at depth \<open>d\<close> among
  its siblings: the walk yields what the earlier siblings give, then the entry of the
  section at depth \<open>d\<close>, then the entries of its children walked at depth \<open>d + 1\<close>,
  then what the later siblings give. Flattening \<open>[A, B]\<close> where \<open>A\<close> has the children
  \<open>[A1, A2]\<close> yields \<open>[A, A1, A2, B]\<close>.
\<close>

theorem section_entry_then_children:
  assumes "strip t \<noteq> []"
  shows "walk_toc (before @ SectionPair (Some t) children # later) d =
           walk_toc before d @ (strip t, d) # walk_toc children (d + 1) @ walk_toc later d
         \<and> walk_toc [SectionPair (Some ''A'') [Link (Some ''A1''), Link (Some ''A2'')],
                      Link (Some ''B'')] 0 =
           [(''A'', 0), (''A1'', 1), (''A2'', 1), (''B'', 0)]"
proof
  show "walk_toc (before @ SectionPair (Some t) children # later) d =
          walk_toc before d @ (strip t, d) # walk_toc children (d + 1) @ walk_toc later d"
    using assms by (auto simp: walk_toc_append strip_Nil)
  show "walk_toc [SectionPair (Some ''A'') [Link (Some ''A1''), Link (Some ''A2'')],
                  Link (Some ''B'')] 0 =
          [(''A'', 0), (''A1'', 1), (''A2'', 1), (''B'', 0)]"
    by (simp add: strip_def whitespace_def)
qed

theorem section_entry_then_children_witness:
  "strip ''Part 1'' \<noteq> []
   \<and> walk_toc ([Link (Some ''Preface'')] @
        SectionPair (Some ''Part 1'') [Link (Some ''Ch 1'')] # [Link (Some ''End'')]) 0 =
      [(''Preface'', 0), (''Part 1'', 0), (''Ch 1'', 1), (''End'', 0)]"
proof -
  have h: "strip ''Part 1'' \<noteq> []"
    by (simp add: strip_def whitespace_def)
  show ?thesis
    using h section_entry_then_children [OF h, of "[Link (Some ''Preface'')]"
        "[Link (Some ''Ch 1'')]" "[Link (Some ''End'')]" 0]
    by (simp add: strip_def whitespace_def)
qed



text \<open>
  C10. An item that is no link, no pair of a section and its children and no bare
  section is passed over: the walk yields what the items before it and the items after
  it give, whatever is nested inside the item.
\<close>

theorem other_item_skipped:
  "walk_toc (before @ Other nested # later) d = walk_toc before d @ walk_toc later d"
  by (simp add: walk_toc_append)

section \<open>Properties of the rendering\<close>

lemma collect_titles_fst: "fst (collect_titles entries (acc, seen)) = acc @ entries"
  by (induction entries arbitrary: acc seen) auto

lemma collect_titles_plain_eq: "collect_titles_plain entries acc = acc @ entries"
  by (induction entries arbitrary: acc) auto

lemma add_entries_eq: "add_entries entries md_lines = md_lines @ map heading_line entries"
  by (induction entries arbitrary: md_lines) (auto simp: heading_line_def)

lemma join_terminated:
  "ls \<noteq> [] \<Longrightarrow> join sep ls @ sep = concat (map (\<lambda>l. l @ sep) ls)"
  by (induction sep ls rule: join.induct) simp_all

lemma join_lines:
  "join sep (x # xs) @ sep = concat (map (\<lambda>l. l @ sep) (x # xs))"
  using join_terminated [of "x # xs" sep] by simp

lemma md_document_join:
  "md_document t entries =
     join ''\<newline>'' ((''# '' @ t) # [] # map heading_line entries) @ ''\<newline>''"
  by (simp add: md_document_def add_entries_eq case_prod_beta collect_titles_fst)

lemma md_document_eq:
  "md_document t entries =
     concat (map (\<lambda>l. l @ ''\<newline>'') ((''# '' @ t) # [] # map heading_line entries))"
  by (simp only: md_document_join join_lines)

lemma md_document_plain_eq:
  "md_document_plain t entries =
     concat (map (\<lambda>l. l @ ''\<newline>'') ((''# '' @ t) # [] # map heading_line entries))"
proof -
  have "md_document_plain t entries =
          join ''\<newline>'' ((''# '' @ t) # [] # map heading_line entries) @ ''\<newline>''"
    by (simp add: md_document_plain_def add_entries_eq collect_titles_plain_eq)
  then show ?thesis
    by (simp only: join_lines)
qed

lemma heading_line_nonneg:
  assumes "list_all (\<lambda>entry. 0 \<le> snd entry) entries"
  shows "map heading_line entries =
         map (\<lambda>(title, d). replicate (nat d + 2) CHR ''#'' @ '' '' @ title) entries"
  using assms
  by (induction entries) (auto simp: heading_line_def hashes_def nat_add_distrib)

text \<open>
  C3. For a book title and entries of depth at least zero, the document is the lines
  joined by one newline character and followed by one more, the lines being the
  heading \<open># \<close> with the book title, one empty line and, for each entry of depth
  \<open>d\<close>, the line of \<open>d + 2\<close> characters \<open>#\<close>, one space and the title as it is. So
  it begins with the title heading and one blank line, and every entry line ends with
  one newline character.
\<close>

theorem md_document_shape:
  assumes "list_all (\<lambda>entry. 0 \<le> snd entry) entries"
  shows "md_document t entries =
           join ''\<newline>''
             ((''# '' @ t) # '''' #
              map (\<lambda>(title, d). replicate (nat d + 2) CHR ''#'' @ '' '' @ title) entries)
           @ ''\<newline>''
         \<and> md_document t entries =
           ''# '' @ t @ ''\<newline>'' @ ''\<newline>'' @
           concat (map (\<lambda>(title, d). replicate (nat d + 2) CHR ''#'' @ '' '' @ title @ ''\<newline>'')
                     entries)"
proof
  show "md_document t entries =
          join ''\<newline>''
            ((''# '' @ t) # '''' #
             map (\<lambda>(title, d). replicate (nat d + 2) CHR ''#'' @ '' '' @ title) entries)
          @ ''\<newline>''"
    by (simp only: md_document_join heading_line_nonneg [OF assms])
  have "concat (map (\<lambda>l. l @ ''\<newline>'') (map heading_line entries)) =
        concat (map (\<lambda>(title, d). replicate (nat d + 2) CHR ''#'' @ '' '' @ title @ ''\<newline>'')
                  entries)"
    by (simp add: heading_line_nonneg [OF assms] split_def comp_def)
  then show "md_document t entries =
          ''# '' @ t @ ''\<newline>'' @ ''\<newline>'' @
          concat (map (\<lambda>(title, d). replicate (nat d + 2) CHR ''#'' @ '' '' @ title @ ''\<newline>'')
                    entries)"
    by (simp add: md_document_eq)
qed

theorem md_document_shape_witness:
  "list_all (\<lambda>entry. 0 \<le> snd entry) [(''Part 1'', 0), (''Ch 1'', 1 :: int)]
   \<and> md_document ''Sample'' [(''Part 1'', 0), (''Ch 1'', 1)] =
       ''# Sample\<newline>\<newline>## Part 1\<newline>### Ch 1\<newline>''"
proof -
  have h: "list_all (\<lambda>entry. 0 \<le> snd entry) [(''Part 1'', 0), (''Ch 1'', 1 :: int)]"
    by simp
  show ?thesis
    using h md_document_shape [OF h, of "''Sample''"]
    by (simp add: eval_nat_numeral)
qed

text \<open>
  C9. The titleized set has no part in the output: \<open>toc_to_markdown\<close> and the variant
  without the set give the same files and the same result, for every surrounding, path,
  book title and entries, and an entry line is the \<open>#\<close> characters, one space and the
  title as \<open>walk_toc\<close> yielded it.
\<close>

theorem titleized_set_unused:
  "toc_to_markdown e fs p = toc_to_markdown_plain e fs p
   \<and> md_document t entries = md_document_plain t entries
   \<and> md_document t entries =
       concat (map (\<lambda>l. l @ ''\<newline>'')
         ((''# '' @ t) # [] # map (\<lambda>(title, level). hashes (level + 2) @ '' '' @ title) entries))"
proof -
  have same: "\<And>t entries. md_document t entries = md_document_plain t entries"
    by (simp only: md_document_eq md_document_plain_eq)
  have program: "toc_to_markdown e fs p = toc_to_markdown_plain e fs p"
    unfolding toc_to_markdown_def toc_to_markdown_plain_def same by (rule refl)
  have lines: "map heading_line entries =
               map (\<lambda>(title, level). hashes (level + 2) @ '' '' @ title) entries"
    by (simp add: heading_line_def case_prod_beta)
  have verbatim: "md_document t entries =
       concat (map (\<lambda>l. l @ ''\<newline>'')
         ((''# '' @ t) # [] # map (\<lambda>(title, level). hashes (level + 2) @ '' '' @ title) entries))"
    by (simp only: md_document_eq lines)
  from program same verbatim show ?thesis
    by blast
qed

text \<open>
  C7. The tree of the link Preface, the section Part 1 with the links Ch 1 and Ch 2,
  and a link with the empty title, in a book titled Sample: the walk yields four pairs,
  the document is the title heading, a blank line and four heading lines, and
  \<open>toc_to_markdown\<close> writes that document beside the input.
\<close>

theorem sample_document:
  "walk_toc [Link (Some ''Preface''),
             SectionPair (Some ''Part 1'') [Link (Some ''Ch 1''), Link (Some ''Ch 2'')],
             Link (Some '''')] 0 =
     [(''Preface'', 0), (''Part 1'', 0), (''Ch 1'', 1), (''Ch 2'', 1)]
   \<and> md_document ''Sample''
       (walk_toc [Link (Some ''Preface''),
                  SectionPair (Some ''Part 1'') [Link (Some ''Ch 1''), Link (Some ''Ch 2'')],
                  Link (Some '''')] 0) =
     ''# Sample\<newline>\<newline>## Preface\<newline>## Part 1\<newline>### Ch 1\<newline>### Ch 2\<newline>''
   \<and> toc_to_markdown
       \<lparr>read_epub = \<lambda>p. Inr \<lparr>metadata = [DC \<mapsto> [''title'' \<mapsto> [MetaTuple (Some ''Sample'')]]],
                               toc = [Link (Some ''Preface''),
                                      SectionPair (Some ''Part 1'')
                                        [Link (Some ''Ch 1''), Link (Some ''Ch 2'')],
                                      Link (Some '''')]\<rparr>,
        writable = \<lambda>p. True\<rparr>
       Map.empty \<lparr>anchor = '''', tail = [''Sample.epub'']\<rparr> =
     ([\<lparr>anchor = '''', tail = [''Sample - ToC.md'']\<rparr> \<mapsto>
         ''# Sample\<newline>\<newline>## Preface\<newline>## Part 1\<newline>### Ch 1\<newline>### Ch 2\<newline>''],
      Inr \<lparr>anchor = '''', tail = [''Sample - ToC.md'']\<rparr>)"
  by (simp add: toc_to_markdown_def output_file_def stem_def with_name_def name_def rfind_def
      write_text_def book_title_def md_document_def hashes_def strip_def whitespace_def
      eval_nat_numeral)

text \<open>
  Where the metadata holds no title entry at all (no Dublin Core namespace, or no
  \<open>title\<close> key in it, or an empty list of titles), the default \<open>Untitled\<close> is
  used: with an empty navigation tree the text written is the heading \<open># Untitled\<close>
  and a blank line.
\<close>

lemma untitled_without_title_entry:
  assumes "read_epub e p = Inr b" and "toc b = []"
    and "metadata b DC = None
         \<or> (\<exists>d. metadata b DC = Some d \<and> (d ''title'' = None \<or> d ''title'' = Some []))"
    and "output_file p = Inr out" and "writable e out"
  shows "toc_to_markdown e fs p = (fs(out \<mapsto> ''# Untitled\<newline>\<newline>''), Inr out)"
proof -
  have "book_title b = ''Untitled''"
    using assms(3) by (auto simp: book_title_def)
  moreover have "md_document ''Untitled'' [] = ''# Untitled\<newline>\<newline>''"
    by (simp add: md_document_def)
  ultimately show ?thesis
    using assms(1,2,4,5) by (simp add: toc_to_markdown_def write_text_def)
qed

text \<open>
  C8. The claim is that an empty navigation tree and a book without an available title
  give exactly the heading \<open># Untitled\<close> and a blank line. A title entry whose text
  is \<open>None\<close> (an empty title element) passes the test \<open>if titles:\<close>, so the default
  is not used and the f-string prints the word \<open>None\<close>: the text written is the
  heading \<open># None\<close> and a blank line.
\<close>

theorem empty_toc_none_title:
  "book_title \<lparr>metadata = [DC \<mapsto> [''title'' \<mapsto> [MetaTuple None]]], toc = []\<rparr> = ''None''
   \<and> toc_to_markdown
       \<lparr>read_epub = \<lambda>p. Inr \<lparr>metadata = [DC \<mapsto> [''title'' \<mapsto> [MetaTuple None]]],
                               toc = []\<rparr>,
        writable = \<lambda>p. True\<rparr>
       Map.empty \<lparr>anchor = '''', tail = [''blank.epub'']\<rparr> =
     ([\<lparr>anchor = '''', tail = [''blank - ToC.md'']\<rparr> \<mapsto> ''# None\<newline>\<newline>''],
      Inr \<lparr>anchor = '''', tail = [''blank - ToC.md'']\<rparr>)
   \<and> ''# None\<newline>\<newline>'' \<noteq> ''# Untitled\<newline>\<newline>''"
  by (simp add: toc_to_markdown_def output_file_def stem_def with_name_def name_def rfind_def
      write_text_def book_title_def md_document_def)

section \<open>Properties of the output path and of a failed load\<close>

lemma rfind_last:
  assumes "c \<notin> set ext"
  shows "rfind c (s @ c # ext) = int (length s)"
proof -
  have "takeWhile (\<lambda>x. x \<noteq> c) (rev ext @ c # rev s) =
        rev ext @ takeWhile (\<lambda>x. x \<noteq> c) (c # rev s)"
    using assms by (intro takeWhile_append2) auto
  then show ?thesis
    by (simp add: rfind_def)
qed

lemma stem_cut:
  assumes "name p = s @ ''.'' @ ext" "s \<noteq> []" "ext \<noteq> []" "CHR ''.'' \<notin> set ext"
  shows "stem p = s"
  using assms rfind_last [of "CHR ''.''" ext s]
  by (simp add: stem_def Let_def)

lemma set_stem: "set (stem p) \<subseteq> set (name p)"
  by (auto simp: stem_def Let_def dest: in_set_takeD)

lemma output_file_eq:
  assumes "name p \<noteq> []" "CHR ''/'' \<notin> set (name p)"
  shows "output_file p = Inr (p\<lparr>tail := butlast (tail p) @ [stem p @ '' - ToC.md'']\<rparr>)"
proof -
  have "CHR ''/'' \<notin> set (stem p)"
    using assms(2) set_stem [of p] by blast
  moreover have "stem p @ '' - ToC.md'' \<noteq> ''.''"
    by (simp add: append_eq_Cons_conv)
  ultimately show ?thesis
    using assms(1) by (simp add: output_file_def with_name_def)
qed

text \<open>
  C4. When \<open>read_epub\<close> raises, \<open>toc_to_markdown\<close> ends with that exception and the
  files are what they were: no output file is written. \<open>main\<close> ends with the same
  exception.
\<close>

theorem load_error_writes_nothing:
  assumes "read_epub e p = Inl err"
  shows "toc_to_markdown e fs p = (fs, Inl err) \<and> main e fs p = (fs, Inl err)"
  using assms by (simp add: main_def toc_to_markdown_def)

theorem load_error_writes_nothing_witness:
  "read_epub \<lparr>read_epub = \<lambda>p. Inl (LoadError ''No such file''), writable = \<lambda>p. True\<rparr>
      \<lparr>anchor = '''', tail = [''missing.epub'']\<rparr> = Inl (LoadError ''No such file'')
   \<and> main \<lparr>read_epub = \<lambda>p. Inl (LoadError ''No such file''), writable = \<lambda>p. True\<rparr>
        Map.empty \<lparr>anchor = '''', tail = [''missing.epub'']\<rparr> =
      (Map.empty, Inl (LoadError ''No such file''))"
proof -
  have h: "read_epub \<lparr>read_epub = \<lambda>p. Inl (LoadError ''No such file''), writable = \<lambda>p. True\<rparr>
      \<lparr>anchor = '''', tail = [''missing.epub'']\<rparr> = Inl (LoadError ''No such file'')"
    by simp
  show ?thesis
    using h load_error_writes_nothing [OF h, of Map.empty]
    by simp
qed

text \<open>
  C5. For a path whose last component is a file name, the output path keeps the anchor
  and the directories of the input and replaces the file name by the stem followed by
  \<open> - ToC.md\<close>. For a name \<open>s.ext\<close> with \<open>s\<close> and \<open>ext\<close> non-empty and no dot
  in \<open>ext\<close>, the stem is \<open>s\<close>: only the last extension is cut. When the book loads
  and the output path can be written, the document is stored there whatever the path
  held before.
\<close>

theorem output_beside_input:
  assumes "name p \<noteq> []" and "CHR ''/'' \<notin> set (name p)"
  shows "output_file p = Inr (p\<lparr>tail := butlast (tail p) @ [stem p @ '' - ToC.md'']\<rparr>)
         \<and> (\<forall>s ext. name p = s @ ''.'' @ ext \<and> s \<noteq> [] \<and> ext \<noteq> [] \<and> CHR ''.'' \<notin> set ext
               \<longrightarrow> stem p = s)
         \<and> (\<forall>b out. read_epub e p = Inr b \<and> output_file p = Inr out \<and> writable e out
               \<longrightarrow> toc_to_markdown e fs p =
                   (fs(out \<mapsto> md_document (book_title b) (walk_toc (toc b) 0)), Inr out))"
proof (intro conjI allI impI)
  show "output_file p = Inr (p\<lparr>tail := butlast (tail p) @ [stem p @ '' - ToC.md'']\<rparr>)"
    using assms by (rule output_file_eq)
next
  fix s ext
  assume "name p = s @ ''.'' @ ext \<and> s \<noteq> [] \<and> ext \<noteq> [] \<and> CHR ''.'' \<notin> set ext"
  then show "stem p = s"
    by (simp add: stem_cut)
next
  fix b out
  assume "read_epub e p = Inr b \<and> output_file p = Inr out \<and> writable e out"
  then show "toc_to_markdown e fs p =
               (fs(out \<mapsto> md_document (book_title b) (walk_toc (toc b) 0)), Inr out)"
    by (simp add: toc_to_markdown_def write_text_def)
qed

theorem output_beside_input_witness:
  "name \<lparr>anchor = ''/'', tail = [''books'', ''Foo Bar.v2.epub'']\<rparr> \<noteq> []
   \<and> CHR ''/'' \<notin> set (name \<lparr>anchor = ''/'', tail = [''books'', ''Foo Bar.v2.epub'']\<rparr>)
   \<and> output_file \<lparr>anchor = ''/'', tail = [''books'', ''Foo Bar.v2.epub'']\<rparr> =
       Inr \<lparr>anchor = ''/'', tail = [''books'', ''Foo Bar.v2 - ToC.md'']\<rparr>
   \<and> stem \<lparr>anchor = ''/'', tail = [''books'', ''Foo Bar.v2.epub'']\<rparr> = ''Foo Bar.v2''
   \<and> toc_to_markdown
       \<lparr>read_epub = \<lambda>p. Inr \<lparr>metadata = Map.empty, toc = [Link (Some ''One'')]\<rparr>,
        writable = \<lambda>p. True\<rparr>
       [\<lparr>anchor = ''/'', tail = [''books'', ''Foo Bar.v2 - ToC.md'']\<rparr> \<mapsto> ''old text'']
       \<lparr>anchor = ''/'', tail = [''books'', ''Foo Bar.v2.epub'']\<rparr> =
     ([\<lparr>anchor = ''/'', tail = [''books'', ''Foo Bar.v2 - ToC.md'']\<rparr> \<mapsto>
         ''# Untitled\<newline>\<newline>## One\<newline>''],
      Inr \<lparr>anchor = ''/'', tail = [''books'', ''Foo Bar.v2 - ToC.md'']\<rparr>)"
proof -
  let ?p = "\<lparr>anchor = ''/'', tail = [''books'', ''Foo Bar.v2.epub'']\<rparr>"
  let ?out = "\<lparr>anchor = ''/'', tail = [''books'', ''Foo Bar.v2 - ToC.md'']\<rparr>"
  let ?b = "\<lparr>metadata = Map.empty, toc = [Link (Some ''One'')]\<rparr>"
  let ?e = "\<lparr>read_epub = \<lambda>p. Inr ?b, writable = \<lambda>p. True\<rparr>"
  have h1: "name ?p \<noteq> []"
    by (simp add: name_def)
  have h2: "CHR ''/'' \<notin> set (name ?p)"
    by (simp add: name_def)
  have n: "name ?p = ''Foo Bar.v2'' @ ''.'' @ ''epub''"
    by (simp add: name_def)
  note t = output_beside_input [OF h1 h2, of ?e "[?out \<mapsto> ''old text'']"]
  have s: "stem ?p = ''Foo Bar.v2''"
    using t [THEN conjunct2, THEN conjunct1, rule_format, of "''Foo Bar.v2''" "''epub''"] n
    by simp
  have o: "output_file ?p = Inr ?out"
    using t [THEN conjunct1] s by simp
  have d: "md_document (book_title ?b) (walk_toc (toc ?b) 0) =
           ''# Untitled\<newline>\<newline>## One\<newline>''"
    by (simp add: book_title_def md_document_def hashes_def strip_def whitespace_def
        eval_nat_numeral)
  have w: "toc_to_markdown ?e [?out \<mapsto> ''old text''] ?p =
           ([?out \<mapsto> ''# Untitled\<newline>\<newline>## One\<newline>''], Inr ?out)"
    using t [THEN conjunct2, THEN conjunct2, rule_format, of ?b ?out] o d by simp
  from h1 h2 o s w show ?thesis
    by blast
qed

end
